theory Spec2Isabelle
  imports Main "HOL-Library.Sublist"
begin

section \<open>Python values used by crawler.py\<close>

text \<open>
  A Python \<open>str\<close> is a sequence of Unicode code points. The source splits on the en dash
  (U+2013) and the spec's scenario contains a middle dot (U+00B7), so a string is modelled as
  the list of its code points; \<open>py\<close> embeds an ASCII literal.
\<close>

type_synonym pystr = "nat list"

definition py :: "string \<Rightarrow> pystr" where
  "py s = map of_char s"

definition NEWLINE :: nat where
  "NEWLINE = 10"

definition EN_DASH :: nat where
  "EN_DASH = 8211"

definition MIDDLE_DOT :: nat where
  "MIDDLE_DOT = 183"

text \<open>The exceptions that the modelled code can raise or catch.\<close>

datatype exn =
    IndexError
  | AttributeError
  | UnboundLocalError
  | RecursionError
  | Forbidden
  | StaleElementReferenceException
  | WebDriverException

text \<open>Sequencing of statements: the first exception raised ends the computation.\<close>

definition and_then :: "exn + 'a \<Rightarrow> ('a \<Rightarrow> exn + 'b) \<Rightarrow> exn + 'b" where
  "and_then r f = (case r of Inl e \<Rightarrow> Inl e | Inr v \<Rightarrow> f v)"

text \<open>\<open>xs[i]\<close>: a negative index counts from the end; out of range raises \<open>IndexError\<close>.\<close>

definition item :: "'a list \<Rightarrow> int \<Rightarrow> exn + 'a" where
  "item xs i =
     (if 0 \<le> i \<and> i < int (length xs) then Inr (xs ! nat i)
      else if i < 0 \<and> - i \<le> int (length xs) then Inr (xs ! nat (int (length xs) + i))
      else Inl IndexError)"

text \<open>\<open>str.isspace\<close> on one code point: the whitespace of \<open>str.split()\<close> and \<open>str.strip()\<close>.\<close>

definition isspace :: "nat \<Rightarrow> bool" where
  "isspace c \<longleftrightarrow>
     (9 \<le> c \<and> c \<le> 13) \<or> (28 \<le> c \<and> c \<le> 32) \<or> c = 133 \<or> c = 160 \<or> c = 5760 \<or>
     (8192 \<le> c \<and> c \<le> 8202) \<or> c = 8232 \<or> c = 8233 \<or> c = 8239 \<or> c = 8287 \<or> c = 12288"

text \<open>
  \<open>s.split()\<close>: the maximal runs of non-whitespace, in order. The first argument is the
  word read so far.
\<close>

fun split_from :: "pystr \<Rightarrow> pystr \<Rightarrow> pystr list" where
  "split_from w [] = (if w = [] then [] else [w])"
| "split_from w (c # cs) =
     (if isspace c then (if w = [] then split_from [] cs else w # split_from [] cs)
      else split_from (w @ [c]) cs)"

definition split :: "pystr \<Rightarrow> pystr list" where
  "split s = split_from [] s"

text \<open>
  \<open>s.split(sep)\<close> for a separator of one character (the source's only separator is the
  en dash): every occurrence cuts, empty pieces are kept.
\<close>

fun split_on_from :: "nat \<Rightarrow> pystr \<Rightarrow> pystr \<Rightarrow> pystr list" where
  "split_on_from sep w [] = [w]"
| "split_on_from sep w (c # cs) =
     (if c = sep then w # split_on_from sep [] cs else split_on_from sep (w @ [c]) cs)"

definition split_on :: "nat \<Rightarrow> pystr \<Rightarrow> pystr list" where
  "split_on sep s = split_on_from sep [] s"

text \<open>\<open>sep.join(xs)\<close>.\<close>

fun join :: "pystr \<Rightarrow> pystr list \<Rightarrow> pystr" where
  "join sep [] = []"
| "join sep [x] = x"
| "join sep (x # y # ys) = x @ sep @ join sep (y # ys)"

text \<open>
  \<open>s.replace(old, new)\<close>: the occurrences of \<open>old\<close> are found from the left and do not
  overlap; an empty \<open>old\<close> matches before every character and at the end.
\<close>

function replace :: "pystr \<Rightarrow> pystr \<Rightarrow> pystr \<Rightarrow> pystr" where
  "replace old new [] = (if old = [] then new else [])"
| "replace old new (c # cs) =
     (if old = [] then new @ c # replace old new cs
      else if prefix old (c # cs) then new @ replace old new (drop (length old) (c # cs))
      else c # replace old new cs)"
  by pat_completeness auto
termination
  by (relation "measure (\<lambda>(old, new, s). length s)") auto

text \<open>\<open>s.strip()\<close>.\<close>

definition strip :: "pystr \<Rightarrow> pystr" where
  "strip s = rev (dropWhile isspace (rev (dropWhile isspace s)))"

text \<open>\<open>sub in s\<close> on strings.\<close>

fun contains :: "pystr \<Rightarrow> pystr \<Rightarrow> bool" where
  "contains sub [] = (sub = [])"
| "contains sub (c # cs) = (prefix sub (c # cs) \<or> contains sub cs)"

text \<open>A \<open>dict\<close> with string keys, in insertion order.\<close>

type_synonym pydict = "(string \<times> pystr) list"

section \<open>The parsed document (BeautifulSoup)\<close>

text \<open>
  A \<open>bs4.element.Tag\<close> has a name, the list of its classes (bs4 splits the \<open>class\<close>
  attribute on whitespace) and its contents: tags and text nodes, in document order. No other
  attribute is read by the parser. The \<open>BeautifulSoup\<close> object is itself a tag, named
  \<open>[document]\<close>, whose contents are the parsed tree.
\<close>

datatype tag = Tag (name: pystr) (classes: "pystr list") (contents: "node list")
  and node = Element tag | NavigableString pystr

text \<open>The tags below a tag, in document order (the tag itself is not among them).\<close>

fun descendants :: "tag \<Rightarrow> tag list" and node_descendants :: "node \<Rightarrow> tag list" where
  "descendants (Tag n cs ks) = concat (map node_descendants ks)"
| "node_descendants (Element t) = t # descendants t"
| "node_descendants (NavigableString s) = []"

text \<open>\<open>tag.get_text()\<close>: all text below the tag, concatenated.\<close>

fun get_text :: "tag \<Rightarrow> pystr" and node_text :: "node \<Rightarrow> pystr" where
  "get_text (Tag n cs ks) = concat (map node_text ks)"
| "node_text (Element t) = get_text t"
| "node_text (NavigableString s) = s"

text \<open>
  \<open>tag.select(selector)\<close> for the two selector forms of the source: \<open>.cls\<close> selects the
  descendants that have the class, a bare name selects the descendants of that name.
\<close>

definition select :: "pystr \<Rightarrow> tag \<Rightarrow> tag list" where
  "select selector t =
     (case selector of
        [] \<Rightarrow> []
      | c # cls \<Rightarrow>
          if c = of_char CHR ''.'' then filter (\<lambda>d. cls \<in> set (classes d)) (descendants t)
          else filter (\<lambda>d. name d = selector) (descendants t))"

text \<open>\<open>len(tag)\<close> is the number of its contents.\<close>

definition len :: "tag \<Rightarrow> nat" where
  "len t = length (contents t)"

text \<open>\<open>bool(tag)\<close>: \<open>Tag.__bool__\<close> returns \<open>True\<close> whatever the contents.\<close>

definition bool_of_tag :: "tag \<Rightarrow> bool" where
  "bool_of_tag t = True"

section \<open>class Parser\<close>

subsection \<open>parse_experience\<close>

text \<open>Lines 67-78: the description.\<close>

definition experience_description :: "tag \<Rightarrow> exn + pystr" where
  "experience_description row_content =
     (if select (py ''.pv-entity__description'') row_content \<noteq> [] then
        and_then (item (select (py ''.pv-entity__description'') row_content) 0)
          (\<lambda>d. Inr (join (py '' '')
                  (split (replace (py ''  '') (py '' '')
                    (replace (py ''see less'') (py '' '')
                      (replace [NEWLINE] (py '' '') (get_text d)))))))
      else Inr [])"

text \<open>Lines 80-85: the location.\<close>

definition experience_location :: "tag \<Rightarrow> exn + pystr" where
  "experience_location row_content =
     (if select (py ''.pv-entity__location'') row_content \<noteq> [] then
        and_then (item (select (py ''.pv-entity__location'') row_content) 0)
          (\<lambda>l. and_then (item (select (py ''span'') l) (- 1))
            (\<lambda>s. Inr (get_text s)))
      else Inr [])"

text \<open>
  Lines 87-101: position and company. \<open>if grouped_content:\<close> is the truth value of a tag,
  or of \<open>None\<close> when the argument is left out: lines 88-93 are the first branch, lines 95-101
  the second.
\<close>

definition position_company_grouped :: "tag \<Rightarrow> tag \<Rightarrow> exn + pystr \<times> pystr" where
  "position_company_grouped row_content grouped_content =
     and_then (item (select (py ''h3'') row_content) 0)
       (\<lambda>h. and_then (item (select (py ''span'') h) (- 1))
         (\<lambda>s. and_then (item (select (py ''.pv-entity__company-summary-info'') grouped_content) 0)
           (\<lambda>i. and_then (item (select (py ''span'') i) 1)
             (\<lambda>c. Inr (strip (get_text s), strip (get_text c))))))"

definition position_company_flat :: "tag \<Rightarrow> exn + pystr \<times> pystr" where
  "position_company_flat row_content =
     and_then (item (select (py ''h3'') row_content) 0)
       (\<lambda>h. and_then (item (select (py ''.pv-entity__secondary-title'') row_content) 0)
         (\<lambda>t. Inr (strip (get_text h),
                    join [] (filter (\<lambda>string. \<not> contains (py ''time'') string)
                               (split (get_text t))))))"

definition experience_position_company :: "tag \<Rightarrow> tag option \<Rightarrow> exn + pystr \<times> pystr" where
  "experience_position_company row_content grouped_content =
     (case grouped_content of
        None \<Rightarrow> position_company_flat row_content
      | Some g \<Rightarrow>
          if bool_of_tag g then position_company_grouped row_content g
          else position_company_flat row_content)"

text \<open>Lines 103-107 (\<open>i = 0\<close>, the start date) and 108-112 (\<open>i = 1\<close>, the end date).\<close>

definition experience_date :: "tag \<Rightarrow> int \<Rightarrow> exn + pystr" where
  "experience_date row_content i =
     and_then (item (select (py ''.pv-entity__date-range'') row_content) 0)
       (\<lambda>d. and_then (item (select (py ''span'') d) 1)
         (\<lambda>s. and_then (item (split_on EN_DASH (get_text s)) i)
           (\<lambda>p. Inr (strip p))))"

definition parse_experience :: "tag \<Rightarrow> tag option \<Rightarrow> exn + pydict" where
  "parse_experience row_content grouped_content =
     and_then (experience_description row_content)
       (\<lambda>description. and_then (experience_location row_content)
         (\<lambda>location. and_then (experience_position_company row_content grouped_content)
           (\<lambda>(position, company). and_then (experience_date row_content 0)
             (\<lambda>start_date. and_then (experience_date row_content 1)
               (\<lambda>end_date. Inr
                  [(''company'', company),
                   (''start_date'', start_date),
                   (''end_date'', end_date),
                   (''position'', position),
                   (''location'', location),
                   (''description'', description)])))))"

subsection \<open>parse_education\<close>

text \<open>
  Lines 130-135 (degree), 137-142 (field of study), 144-148 (school) and 150-152 (dates).
  Line 150 indexes the list of date blocks before it tests the result, so an empty list
  raises; the test itself is the truth value of a tag. Were it false, the names
  \<open>start_date\<close> and \<open>end_date\<close> would be unbound at the \<open>return\<close>.
\<close>

definition education_degree :: "tag \<Rightarrow> exn + pystr" where
  "education_degree current_item =
     (if select (py ''.pv-entity__degree-name'') current_item \<noteq> [] then
        and_then (item (select (py ''.pv-entity__degree-name'') current_item) 0)
          (\<lambda>d. and_then (item (select (py ''.pv-entity__comma-item'') d) 0)
            (\<lambda>c. Inr (get_text c)))
      else Inr [])"

definition education_field_of_study :: "tag \<Rightarrow> exn + pystr" where
  "education_field_of_study current_item =
     (if select (py ''.pv-entity__fos'') current_item \<noteq> [] then
        and_then (item (select (py ''.pv-entity__fos'') current_item) 0)
          (\<lambda>f. and_then (item (select (py ''span'') f) (- 1))
            (\<lambda>s. Inr (get_text s)))
      else Inr [])"

definition education_school :: "tag \<Rightarrow> exn + pystr" where
  "education_school current_item =
     (if select (py ''.pv-entity__school-name'') current_item \<noteq> [] then
        and_then (item (select (py ''.pv-entity__school-name'') current_item) 0)
          (\<lambda>s. Inr (get_text s))
      else Inr [])"

definition education_dates :: "tag \<Rightarrow> exn + pystr \<times> pystr" where
  "education_dates current_item =
     and_then (item (select (py ''.pv-entity__dates'') current_item) 0)
       (\<lambda>dates.
          if bool_of_tag dates then
            and_then (item (select (py ''.pv-entity__dates'') current_item) 0)
              (\<lambda>d0. and_then (item (select (py ''time'') d0) 0)
                (\<lambda>t0. and_then (item (select (py ''.pv-entity__dates'') current_item) 0)
                  (\<lambda>d1. and_then (item (select (py ''time'') d1) 1)
                    (\<lambda>t1. Inr (get_text t0, get_text t1)))))
          else Inl UnboundLocalError)"

definition parse_education :: "tag \<Rightarrow> exn + pydict" where
  "parse_education row_content =
     and_then (item (select (py ''.pv-entity__summary-info'') row_content) 0)
       (\<lambda>current_item. and_then (education_degree current_item)
         (\<lambda>degree. and_then (education_field_of_study current_item)
           (\<lambda>field_of_study. and_then (education_school current_item)
             (\<lambda>school. and_then (education_dates current_item)
               (\<lambda>(start_date, end_date). Inr
                  [(''school'', school),
                   (''field_of_study'', field_of_study),
                   (''degree'', degree),
                   (''start_date'', start_date),
                   (''end_date'', end_date)])))))"

subsection \<open>parse_certification\<close>

text \<open>
  The guards of lines 168-170 compare \<open>len(current_item)\<close>, the number of contents of the
  summary block, while the reads index the list of its \<open>span\<close> descendants; line 167 reads
  the second span with no guard on the number of spans.
\<close>

definition certification_span :: "tag \<Rightarrow> nat \<Rightarrow> exn + pystr" where
  "certification_span current_item k =
     (if len current_item \<le> k then Inr []
      else and_then (item (select (py ''span'') current_item) (int k))
             (\<lambda>s. Inr (get_text s)))"

definition parse_certification :: "tag \<Rightarrow> exn + pydict" where
  "parse_certification row_content =
     and_then (item (select (py ''.pv-certifications__summary-info'') row_content) 0)
       (\<lambda>current_item.
     and_then
       (if select (py ''span'') current_item \<noteq> [] then
          and_then (item (select (py ''span'') current_item) 1)
            (\<lambda>c. and_then (certification_span current_item 3)
              (\<lambda>issue_date. and_then (certification_span current_item 4)
                (\<lambda>due_date. and_then (certification_span current_item 5)
                  (\<lambda>credential. Inr (get_text c, issue_date, due_date, credential)))))
        else Inr ([], [], [], []))
       (\<lambda>(company, issue_date, due_date, credential).
     and_then
       (if select (py ''h3'') current_item \<noteq> [] then
          and_then (item (select (py ''h3'') current_item) 0) (\<lambda>h. Inr (get_text h))
        else Inr [])
       (\<lambda>title. Inr
          [(''company'', company),
           (''title'', title),
           (''issue_date'', issue_date),
           (''due_date'', due_date),
           (''credential'', credential)])))"

subsection \<open>parse_about\<close>

definition parse_about :: "tag \<Rightarrow> pystr" where
  "parse_about row_content =
     join (py '' '')
       (split (replace (py ''  '') (py '' '')
         (replace [NEWLINE] (py '' '') (get_text row_content))))"

section \<open>class Crawler: from a section's markup to records\<close>

text \<open>
  The section's markup is fetched from the browser and parsed by
  \<open>BeautifulSoup(html_section, 'lxml')\<close>; both are the work of libraries. The functions
  below start from the parsed document \<open>soup\<close>. \<open>_get_section_elements\<close> ignores its
  \<open>selector\<close> argument and selects the \<open>html\<close> elements of the document.
\<close>

definition get_section_elements :: "pystr \<Rightarrow> tag \<Rightarrow> tag list" where
  "get_section_elements selector soup = select (py ''html'') soup"

text \<open>\<open>isinstance(elements, list)\<close> for a \<open>Tag\<close>: a tag is not a list.\<close>

definition isinstance_list :: "tag \<Rightarrow> bool" where
  "isinstance_list elements = False"

text \<open>
  The loop of lines 290-292 over the contents of a tag. A text node has no \<open>select\<close>, which
  is the first thing \<open>parse_education\<close> and \<open>parse_certification\<close> call.
\<close>

fun items_loop :: "(tag \<Rightarrow> exn + 'r) \<Rightarrow> node list \<Rightarrow> 'r list \<Rightarrow> exn + 'r list" where
  "items_loop parser_method [] items = Inr items"
| "items_loop parser_method (NavigableString s # rest) items = Inl AttributeError"
| "items_loop parser_method (Element i # rest) items =
     and_then (parser_method i) (\<lambda>r. items_loop parser_method rest (items @ [r]))"

definition fetch_arbitrary_data ::
  "(tag \<Rightarrow> exn + 'r) \<Rightarrow> pystr \<Rightarrow> tag \<Rightarrow> exn + 'r list" where
  "fetch_arbitrary_data parser_method selector soup =
     and_then (item (get_section_elements selector soup) 0)
       (\<lambda>elements.
          if \<not> isinstance_list elements then
            and_then (parser_method elements) (\<lambda>r. Inr [r])
          else items_loop parser_method (contents elements) [])"

definition validate_authentication :: "bool \<Rightarrow> exn + unit" where
  "validate_authentication authenticated = (if \<not> authenticated then Inl Forbidden else Inr ())"

definition fetch_education_data :: "bool \<Rightarrow> tag \<Rightarrow> exn + pydict list" where
  "fetch_education_data authenticated soup =
     and_then (validate_authentication authenticated)
       (\<lambda>_. fetch_arbitrary_data parse_education (py ''.education-section'') soup)"

definition fetch_certification_data :: "bool \<Rightarrow> tag \<Rightarrow> exn + pydict list" where
  "fetch_certification_data authenticated soup =
     and_then (validate_authentication authenticated)
       (\<lambda>_. fetch_arbitrary_data parse_certification (py ''.certification-section'') soup)"

text \<open>The inner loop of \<open>fetch_experience_data\<close> (lines 317-320).\<close>

fun role_details_loop :: "tag \<Rightarrow> tag list \<Rightarrow> pydict list \<Rightarrow> exn + pydict list" where
  "role_details_loop row [] experiences = Inr experiences"
| "role_details_loop row (row_detail # rest) experiences =
     and_then (parse_experience row_detail (Some row))
       (\<lambda>e. role_details_loop row rest (experiences @ [e]))"

text \<open>
  The outer loop (lines 315-322) over the contents of the \<open>html\<close> element. The two tests
  are two \<open>if\<close> statements, one after the other.
\<close>

fun rows_loop :: "node list \<Rightarrow> pydict list \<Rightarrow> exn + pydict list" where
  "rows_loop [] experiences = Inr experiences"
| "rows_loop (NavigableString s # rest) experiences = Inl AttributeError"
| "rows_loop (Element row # rest) experiences =
     and_then
       (if select (py ''.pv-entity__company-summary-info'') row \<noteq> [] then
          role_details_loop row (select (py ''.pv-entity__role-details'') row) experiences
        else Inr experiences)
       (\<lambda>experiences1.
     and_then
       (if select (py ''.pv-entity__secondary-title'') row \<noteq> [] then
          and_then (parse_experience row None) (\<lambda>e. Inr (experiences1 @ [e]))
        else Inr experiences1)
       (\<lambda>experiences2. rows_loop rest experiences2))"

definition fetch_experience_data :: "bool \<Rightarrow> tag \<Rightarrow> exn + pydict list" where
  "fetch_experience_data authenticated soup =
     and_then (validate_authentication authenticated)
       (\<lambda>_. and_then (item (get_section_elements (py ''.experience-section'') soup) 0)
         (\<lambda>elements. rows_loop (contents elements) []))"

section \<open>The expander (Crawler._expand_items)\<close>



text \<open>
  The live document during an expansion, with the calls made on the driver so far: the number
  of scans (calls of \<open>find_elements_by_class_name\<close>) and the handles on which \<open>click\<close>
  was called, in order.
\<close>
record ('d, 'h) live =
  document :: 'd
  passes :: nat
  clicks :: "'h list"








section \<open>Auxiliary notions and inputs\<close>

text \<open>A word of \<open>str.split()\<close>: not empty and free of whitespace.\<close>

definition is_word :: "pystr \<Rightarrow> bool" where
  "is_word w \<longleftrightarrow> w \<noteq> [] \<and> (\<forall>c \<in> set w. \<not> isspace c)"

text \<open>Inputs at which the theorems below are run.\<close>

definition about_raw :: tag where
  "about_raw =
     Tag (py ''html'') []
       [Element (Tag (py ''body'') []
          [Element (Tag (py ''p'') [] [NavigableString (py ''  Builds   compilers.'' @ [NEWLINE])]),
           NavigableString (py ''   Likes proofs  '')])]"

definition about_normalized :: tag where
  "about_normalized =
     Tag (py ''html'') [] [NavigableString (py ''Builds compilers. Likes proofs'')]"

definition education_without_dates :: tag where
  "education_without_dates =
     Tag (py ''html'') []
       [Element (Tag (py ''body'') []
          [Element (Tag (py ''div'') [py ''pv-entity__summary-info'']
             [Element (Tag (py ''h3'') [py ''pv-entity__school-name'']
                [NavigableString (py ''MIT'')])])])]"

text \<open>
  The fragment of the specification's scenario, as \<open>lxml\<close> parses it: the parser wraps the
  markup in \<open>html\<close> and \<open>body\<close>, and \<open><span/>\<close> is an empty element. The secondary
  title is \<open>Full-time\<close>, a middle dot and \<open>Acme\<close>, separated by spaces.
\<close>

definition date_span :: "pystr \<Rightarrow> tag" where
  "date_span txt = Tag (py ''span'') [] [NavigableString txt]"

definition date_range_block :: "pystr \<Rightarrow> tag" where
  "date_range_block txt =
     Tag (py ''div'') [py ''pv-entity__date-range'']
       [Element (Tag (py ''span'') [] []), Element (date_span txt)]"

definition scenario_entry :: tag where
  "scenario_entry =
     Tag (py ''div'') []
       [Element (Tag (py ''h3'') [] [NavigableString (py ''Engineer'')]),
        Element (Tag (py ''span'') [py ''pv-entity__secondary-title'']
          [NavigableString (py ''Full-time '' @ [MIDDLE_DOT] @ py '' Acme'')]),
        Element (date_range_block (py ''Jan 2020 '' @ [EN_DASH] @ py '' Mar 2021''))]"

definition scenario_body :: tag where
  "scenario_body =
     Tag (py ''body'') []
       [Element (Tag (py ''div'') [py ''experience-section''] [Element scenario_entry])]"

definition scenario_html :: tag where
  "scenario_html = Tag (py ''html'') [] [Element scenario_body]"

definition scenario_soup :: tag where
  "scenario_soup = Tag (py ''[document]'') [] [Element scenario_html]"

definition scenario_record :: pydict where
  "scenario_record =
     [(''company'', MIDDLE_DOT # py ''Acme''),
      (''start_date'', py ''Jan 2020''),
      (''end_date'', py ''Mar 2021''),
      (''position'', py ''Engineer''),
      (''location'', []),
      (''description'', [])]"



definition role_details :: "pystr \<Rightarrow> pystr \<Rightarrow> tag" where
  "role_details title txt =
     Tag (py ''div'') [py ''pv-entity__role-details'']
       [Element (Tag (py ''h3'') []
          [Element (Tag (py ''span'') [] [NavigableString (py ''Title'')]),
           Element (Tag (py ''span'') [] [NavigableString title])]),
        Element (date_range_block txt)]"

definition manager_role :: tag where
  "manager_role = role_details (py ''Manager'') (py ''2019 '' @ [EN_DASH] @ py '' 2021'')"

definition developer_role :: tag where
  "developer_role = role_details (py ''Developer'') (py ''2017 '' @ [EN_DASH] @ py '' 2019'')"

definition role_record :: "pystr \<Rightarrow> pystr \<Rightarrow> pystr \<Rightarrow> pystr \<Rightarrow> pydict" where
  "role_record company start_date end_date position =
     [(''company'', company), (''start_date'', start_date), (''end_date'', end_date),
      (''position'', position), (''location'', []), (''description'', [])]"

text \<open>An education section with two entries.\<close>

definition education_entry :: "pystr \<Rightarrow> pystr \<Rightarrow> pystr \<Rightarrow> tag" where
  "education_entry school start_year end_year =
     Tag (py ''li'') []
       [Element (Tag (py ''div'') [py ''pv-entity__summary-info'']
          [Element (Tag (py ''h3'') [py ''pv-entity__school-name''] [NavigableString school]),
           Element (Tag (py ''p'') [py ''pv-entity__dates'']
             [Element (Tag (py ''time'') [] [NavigableString start_year]),
              Element (Tag (py ''time'') [] [NavigableString end_year])])])]"

definition two_educations_html :: tag where
  "two_educations_html =
     Tag (py ''html'') []
       [Element (Tag (py ''body'') []
          [Element (Tag (py ''ul'') []
             [Element (education_entry (py ''MIT'') (py ''2010'') (py ''2014'')),
              Element (education_entry (py ''ETH'') (py ''2015'') (py ''2017''))])])]"

definition two_educations_soup :: tag where
  "two_educations_soup = Tag (py ''[document]'') [] [Element two_educations_html]"

text \<open>
  Two certification entries: a summary block with one \<open>span\<close>, and a summary block with
  four contents of which the second holds the only two spans.
\<close>

definition one_span_certification :: tag where
  "one_span_certification =
     Tag (py ''html'') []
       [Element (Tag (py ''body'') []
          [Element (Tag (py ''div'') [py ''pv-certifications__summary-info'']
             [Element (Tag (py ''h3'') [] [NavigableString (py ''Cloud Architect'')]),
              Element (Tag (py ''span'') [] [NavigableString (py ''Acme Academy'')])])])]"

definition four_block_certification :: tag where
  "four_block_certification =
     Tag (py ''html'') []
       [Element (Tag (py ''body'') []
          [Element (Tag (py ''div'') [py ''pv-certifications__summary-info'']
             [Element (Tag (py ''h3'') [] [NavigableString (py ''Cloud Architect'')]),
              Element (Tag (py ''p'') []
                [Element (Tag (py ''span'') [] [NavigableString (py ''Issuing authority'')]),
                 Element (Tag (py ''span'') [] [NavigableString (py ''Acme Academy'')])]),
              Element (Tag (py ''p'') [] []),
              Element (Tag (py ''p'') [] [])])])]"

text \<open>
  An experience section with two entries, as \<open>lxml\<close> parses it
  (\<open>html > body > ul > li, li\<close>). The first entry is flat: a position, a secondary title
  and a date range. The second has both markers: a company summary, a secondary title and
  two role blocks.
\<close>
definition flat_item :: tag where
  "flat_item =
     Tag (py ''li'') []
       [Element (Tag (py ''h3'') [] [NavigableString (py ''Intern'')]),
        Element (Tag (py ''span'') [py ''pv-entity__secondary-title''] [NavigableString (py ''Acme'')]),
        Element (date_range_block (py ''2015 '' @ [EN_DASH] @ py '' 2016''))]"

definition both_markers_item :: tag where
  "both_markers_item =
     Tag (py ''li'') []
       [Element (Tag (py ''div'') [py ''pv-entity__company-summary-info'']
          [Element (Tag (py ''span'') [] [NavigableString (py ''Company Name'')]),
           Element (Tag (py ''span'') [] [NavigableString (py ''Initech'')])]),
        Element (Tag (py ''span'') [py ''pv-entity__secondary-title'']
          [NavigableString (py ''Part-time Initech'')]),
        Element manager_role, Element developer_role]"

definition two_items_body :: tag where
  "two_items_body =
     Tag (py ''body'') []
       [Element (Tag (py ''ul'') [] [Element flat_item, Element both_markers_item])]"

definition two_items_html :: tag where
  "two_items_html = Tag (py ''html'') [] [Element two_items_body]"

definition two_items_soup :: tag where
  "two_items_soup = Tag (py ''[document]'') [] [Element two_items_html]"






section \<open>Properties of the Python values\<close>

lemma isspace_simps [simp]: "isspace 32" "isspace NEWLINE"
  by (simp_all add: isspace_def NEWLINE_def)

lemma py_space [simp]: "py '' '' = [32]" "py ''  '' = [32, 32]"
  by (simp_all add: py_def)

lemma replace_char_absent: "a \<notin> set s \<Longrightarrow> replace [a] new s = s"
  by (induction s) auto

lemma split_from_words:
  "\<forall>c \<in> set w. \<not> isspace c \<Longrightarrow> \<forall>x \<in> set (split_from w s). is_word x"
proof (induction s arbitrary: w)
  case Nil
  then show ?case by (simp add: is_word_def)
next
  case (Cons a s)
  have e: "\<forall>x \<in> set (split_from [] s). is_word x"
    using Cons.IH [of "[]"] by simp
  show ?case
  proof (cases "isspace a")
    case True
    with e Cons.prems show ?thesis by (simp add: is_word_def)
  next
    case False
    with Cons.prems have "\<forall>c \<in> set (w @ [a]). \<not> isspace c" by simp
    from Cons.IH [OF this] False show ?thesis by simp
  qed
qed

lemma split_words: "\<forall>x \<in> set (split s). is_word x"
  using split_from_words [of "[]" s] by (simp add: split_def)

lemma split_from_append:
  "\<forall>c \<in> set v. \<not> isspace c \<Longrightarrow> split_from w (v @ rest) = split_from (w @ v) rest"
  by (induction v arbitrary: w) auto

lemma split_from_join:
  "\<forall>x \<in> set ws. is_word x \<Longrightarrow> split_from [] (join [32] ws) = ws"
proof (induction "[32::nat]" ws rule: join.induct)
  case 1
  show ?case by simp
next
  case (2 x)
  then have "\<forall>c \<in> set x. \<not> isspace c" "x \<noteq> []" by (simp_all add: is_word_def)
  then show ?case using split_from_append [of x "[]" "[]"] by simp
next
  case (3 x y ys)
  then have x: "\<forall>c \<in> set x. \<not> isspace c" "x \<noteq> []" by (simp_all add: is_word_def)
  from 3 have "split_from [] (join [32] (y # ys)) = y # ys" by simp
  with x show ?case
    using split_from_append [of x "[]" "32 # join [32] (y # ys)"] by simp
qed

lemma replace_skip_word:
  "\<forall>c \<in> set w. \<not> isspace c \<Longrightarrow>
     replace [32, 32] [32] (w @ t) = w @ replace [32, 32] [32] t"
  by (induction w) auto

lemma join_hd_word:
  "\<forall>x \<in> set (y # ys). is_word x \<Longrightarrow> \<exists>c r. join [32] (y # ys) = c # r \<and> c \<noteq> 32"
  by (cases y; cases ys) (auto simp: is_word_def)

lemma replace_join:
  "\<forall>x \<in> set ws. is_word x \<Longrightarrow> replace [32, 32] [32] (join [32] ws) = join [32] ws"
proof (induction "[32::nat]" ws rule: join.induct)
  case 1
  show ?case by simp
next
  case (2 x)
  then have "\<forall>c \<in> set x. \<not> isspace c" by (simp add: is_word_def)
  then show ?case using replace_skip_word [of x "[]"] by simp
next
  case (3 x y ys)
  then have x: "\<forall>c \<in> set x. \<not> isspace c" by (simp add: is_word_def)
  from 3 have ih: "replace [32, 32] [32] (join [32] (y # ys)) = join [32] (y # ys)" by simp
  from 3 obtain c r where cr: "join [32] (y # ys) = c # r" "c \<noteq> 32"
    using join_hd_word [of y ys] by auto
  have "replace [32, 32] [32] (32 # join [32] (y # ys)) = 32 # join [32] (y # ys)"
    using ih cr by simp
  with x show ?case
    using replace_skip_word [of x "32 # join [32] (y # ys)"] by simp
qed

lemma set_join: "set (join sep ws) \<subseteq> set sep \<union> \<Union> (set ` set ws)"
  by (induction sep ws rule: join.induct) auto

lemma join_no_newline:
  assumes "\<forall>x \<in> set ws. is_word x" shows "NEWLINE \<notin> set (join [32] ws)"
proof
  assume "NEWLINE \<in> set (join [32] ws)"
  with set_join [of "[32]" ws] have "NEWLINE = 32 \<or> (\<exists>x \<in> set ws. NEWLINE \<in> set x)" by auto
  then obtain x where "x \<in> set ws" "NEWLINE \<in> set x" by (auto simp: NEWLINE_def)
  with assms have "\<not> isspace NEWLINE" unfolding is_word_def by blast
  then show False by simp
qed

lemma normalize_join:
  assumes "\<forall>x \<in> set ws. is_word x"
  shows "join [32] (split (replace [32, 32] [32] (replace [NEWLINE] [32] (join [32] ws)))) =
         join [32] ws"
  using assms
  by (simp add: replace_char_absent [OF join_no_newline] replace_join split_def split_from_join)

lemma join_empty_sep: "join [] xs = concat xs"
  by (induction "[] :: pystr" xs rule: join.induct) simp_all







section \<open>Properties of the document\<close>

lemma item_error: "item xs i = Inl e \<Longrightarrow> e = IndexError"
  by (simp add: item_def split: if_splits)

lemma item_Nil: "item [] i = Inl IndexError"
  by (simp add: item_def)

lemma item_0: "item xs 0 = (case xs of [] \<Rightarrow> Inl IndexError | x # _ \<Rightarrow> Inr x)"
  by (cases xs) (simp_all add: item_def)

lemma item_mem: "item xs i = Inr x \<Longrightarrow> x \<in> set xs"
  by (auto simp: item_def split: if_splits)

lemma and_then_Inr: "and_then r f = Inr y \<longleftrightarrow> (\<exists>v. r = Inr v \<and> f v = Inr y)"
  by (cases r) (simp_all add: and_then_def)

lemma and_then_IndexError:
  assumes "\<And>e. r = Inl e \<Longrightarrow> e = IndexError"
    and "\<And>v. r = Inr v \<Longrightarrow> f v = Inl IndexError"
  shows "and_then r f = Inl IndexError"
  using assms by (cases r) (simp_all add: and_then_def)

lemma and_then_error:
  assumes "and_then r f = Inl e"
    and "\<And>e. r = Inl e \<Longrightarrow> P e"
    and "\<And>v e. r = Inr v \<Longrightarrow> f v = Inl e \<Longrightarrow> P e"
  shows "P e"
  using assms by (cases r) (simp_all add: and_then_def)

lemma descendants_closed:
  shows "\<forall>d \<in> set (descendants t). set (descendants d) \<subseteq> set (descendants t)"
    and "\<forall>d \<in> set (node_descendants k). set (descendants d) \<subseteq> set (node_descendants k)"
proof (induction t and k rule: descendants_node_descendants.induct)
  case (1 n cs ks)
  show ?case
  proof
    fix d assume "d \<in> set (descendants (Tag n cs ks))"
    then obtain k where k: "k \<in> set ks" "d \<in> set (node_descendants k)" by auto
    with 1 have "set (descendants d) \<subseteq> set (node_descendants k)" by blast
    with k show "set (descendants d) \<subseteq> set (descendants (Tag n cs ks))" by auto
  qed
next
  case (2 t)
  then show ?case by auto
next
  case (3 s)
  show ?case by simp
qed

lemma select_descendants: "set (select sel t) \<subseteq> set (descendants t)"
  by (auto simp: select_def split: list.split)

lemma select_mono:
  "set (descendants d) \<subseteq> set (descendants t) \<Longrightarrow> set (select sel d) \<subseteq> set (select sel t)"
  by (auto simp: select_def split: list.split)

lemma select_within:
  assumes "d \<in> set (select sel t)" shows "set (select sel' d) \<subseteq> set (select sel' t)"
proof -
  from assms select_descendants have "d \<in> set (descendants t)" by blast
  with descendants_closed(1) have "set (descendants d) \<subseteq> set (descendants t)" by blast
  then show ?thesis by (rule select_mono)
qed

lemma select_within_empty:
  "d \<in> set (select sel t) \<Longrightarrow> select sel' t = [] \<Longrightarrow> select sel' d = []"
  using select_within [of d sel t sel'] by simp

section \<open>Properties of the parser\<close>

lemma education_errors:
  "education_degree c = Inl e \<Longrightarrow> e = IndexError"
  "education_field_of_study c = Inl e \<Longrightarrow> e = IndexError"
  "education_school c = Inl e \<Longrightarrow> e = IndexError"
  by (auto simp: education_degree_def education_field_of_study_def education_school_def
        and_then_def split: if_splits sum.splits dest: item_error)




lemma parse_experience_Inr:
  assumes "parse_experience row g = Inr r"
  shows "\<exists>description location position company start_date end_date.
           experience_description row = Inr description \<and>
           experience_location row = Inr location \<and>
           experience_position_company row g = Inr (position, company) \<and>
           experience_date row 0 = Inr start_date \<and>
           experience_date row 1 = Inr end_date \<and>
           r = [(''company'', company), (''start_date'', start_date), (''end_date'', end_date),
                (''position'', position), (''location'', location),
                (''description'', description)]"
  using assms unfolding parse_experience_def
  by (auto simp: and_then_Inr)


section \<open>The inputs, evaluated\<close>

lemmas parse_defs = parse_experience_def experience_description_def experience_location_def
  experience_position_company_def position_company_flat_def position_company_grouped_def
  experience_date_def bool_of_tag_def

lemmas value_defs = select_def item_def and_then_def split_def split_on_def strip_def
  isspace_def py_def EN_DASH_def

lemmas education_defs = parse_education_def education_degree_def education_field_of_study_def
  education_school_def education_dates_def bool_of_tag_def

lemma scenario_parse: "parse_experience scenario_body None = Inr scenario_record"
  by (simp add: parse_experience_def experience_description_def experience_location_def
      experience_position_company_def position_company_flat_def experience_date_def
      scenario_body_def scenario_entry_def date_range_block_def date_span_def scenario_record_def
      select_def item_def and_then_def split_def split_on_def strip_def isspace_def
      py_def MIDDLE_DOT_def EN_DASH_def)

lemma scenario_html_item: "item (get_section_elements sel scenario_soup) 0 = Inr scenario_html"
  by (simp add: get_section_elements_def scenario_soup_def scenario_html_def scenario_body_def
      scenario_entry_def date_range_block_def date_span_def select_def item_def py_def)

lemma scenario_markers:
  "select (py ''.pv-entity__company-summary-info'') scenario_body = []"
  "select (py ''.pv-entity__secondary-title'') scenario_body \<noteq> []"
  by (simp_all add: scenario_body_def scenario_entry_def date_range_block_def date_span_def
      select_def py_def)

lemma scenario_fetch: "fetch_experience_data True scenario_soup = Inr [scenario_record]"
  by (simp add: fetch_experience_data_def validate_authentication_def scenario_html_item scenario_markers scenario_parse
      scenario_html_def and_then_def)



section \<open>Properties of the expander\<close>





















section \<open>The two-entry experience section, evaluated\<close>

lemmas item_defs = flat_item_def both_markers_item_def manager_role_def developer_role_def
  role_details_def date_range_block_def date_span_def

lemma two_items_html_item:
  "item (get_section_elements sel two_items_soup) 0 = Inr two_items_html"
  by (simp add: get_section_elements_def two_items_soup_def two_items_html_def two_items_body_def
      item_defs select_def item_def py_def)

lemma two_items_markers:
  "select (py ''.pv-entity__company-summary-info'') two_items_body \<noteq> []"
  "select (py ''.pv-entity__secondary-title'') two_items_body \<noteq> []"
  "select (py ''.pv-entity__company-summary-info'') both_markers_item \<noteq> []"
  "select (py ''.pv-entity__secondary-title'') both_markers_item \<noteq> []"
  "select (py ''.pv-entity__company-summary-info'') flat_item = []"
  by (simp_all add: two_items_body_def item_defs select_def py_def)

lemma two_items_roles:
  "select (py ''.pv-entity__role-details'') two_items_body = [manager_role, developer_role]"
  "select (py ''.pv-entity__role-details'') both_markers_item = [manager_role, developer_role]"
  "select (py ''li'') two_items_soup = [flat_item, both_markers_item]"
  by (simp_all add: two_items_soup_def two_items_html_def two_items_body_def flat_item_def
        both_markers_item_def select_def py_def)
     (simp_all add: manager_role_def developer_role_def role_details_def date_range_block_def
        date_span_def py_def)

lemma two_items_parses:
  "parse_experience manager_role (Some two_items_body) =
     Inr (role_record (py ''Initech'') (py ''2019'') (py ''2021'') (py ''Manager''))"
  "parse_experience developer_role (Some two_items_body) =
     Inr (role_record (py ''Initech'') (py ''2017'') (py ''2019'') (py ''Developer''))"
  "parse_experience two_items_body None =
     Inr (role_record (py ''Acme'') (py ''2015'') (py ''2016'') (py ''Intern''))"
  by (simp_all add: parse_defs two_items_body_def item_defs value_defs role_record_def)

lemma own_parses:
  "parse_experience manager_role (Some both_markers_item) =
     Inr (role_record (py ''Initech'') (py ''2019'') (py ''2021'') (py ''Manager''))"
  "parse_experience developer_role (Some both_markers_item) =
     Inr (role_record (py ''Initech'') (py ''2017'') (py ''2019'') (py ''Developer''))"
  "parse_experience both_markers_item None =
     Inr (role_record (py ''Initech'') (py ''2019'') (py ''2021'') (py ''TitleManager''))"
  "parse_experience flat_item None =
     Inr (role_record (py ''Acme'') (py ''2015'') (py ''2016'') (py ''Intern''))"
  by (simp_all add: parse_defs item_defs value_defs role_record_def)

lemma two_items_fetch:
  "fetch_experience_data True two_items_soup =
     Inr [role_record (py ''Initech'') (py ''2019'') (py ''2021'') (py ''Manager''),
          role_record (py ''Initech'') (py ''2017'') (py ''2019'') (py ''Developer''),
          role_record (py ''Acme'') (py ''2015'') (py ''2016'') (py ''Intern'')]"
  by (simp add: fetch_experience_data_def validate_authentication_def two_items_html_item
      two_items_markers two_items_roles two_items_parses two_items_html_def and_then_def)

section \<open>The claims\<close>

text \<open>
  C1. \<open>fetch_experience_data\<close> at an experience section with two entries, the second of
  which has both the grouped marker and the flat marker and two role sub-entries.
  \<open>_get_section_elements\<close> returns the \<open>html\<close> element, so the loop of line 315 runs over
  its child, the \<open>body\<close>, and not over the entries. The result has three records: the two
  roles of the second entry, found from the \<open>body\<close>, and one flat record read from the first
  position, secondary title and date range below the \<open>body\<close>, which are those of the first
  entry. The entry with both markers, parsed by the flat path, gives a record of its own;
  that record is not in the result: the entry contributes through the grouped path only.
\<close>

theorem fetch_experience_data_both_markers_item:
  "select (py ''.pv-entity__company-summary-info'') both_markers_item \<noteq> [] \<and>
   select (py ''.pv-entity__secondary-title'') both_markers_item \<noteq> [] \<and>
   select (py ''.pv-entity__role-details'') both_markers_item = [manager_role, developer_role] \<and>
   parse_experience both_markers_item None =
     Inr (role_record (py ''Initech'') (py ''2019'') (py ''2021'') (py ''TitleManager'')) \<and>
   fetch_experience_data True two_items_soup =
     Inr [role_record (py ''Initech'') (py ''2019'') (py ''2021'') (py ''Manager''),
          role_record (py ''Initech'') (py ''2017'') (py ''2019'') (py ''Developer''),
          role_record (py ''Acme'') (py ''2015'') (py ''2016'') (py ''Intern'')] \<and>
   role_record (py ''Initech'') (py ''2019'') (py ''2021'') (py ''TitleManager'') \<notin>
     set [role_record (py ''Initech'') (py ''2019'') (py ''2021'') (py ''Manager''),
          role_record (py ''Initech'') (py ''2017'') (py ''2019'') (py ''Developer''),
          role_record (py ''Acme'') (py ''2015'') (py ''2016'') (py ''Intern'')]"
proof -
  have "role_record (py ''Initech'') (py ''2019'') (py ''2021'') (py ''TitleManager'') \<notin>
     set [role_record (py ''Initech'') (py ''2019'') (py ''2021'') (py ''Manager''),
          role_record (py ''Initech'') (py ''2017'') (py ''2019'') (py ''Developer''),
          role_record (py ''Acme'') (py ''2015'') (py ''2016'') (py ''Intern'')]"
    by (simp add: role_record_def py_def)
  with two_items_markers(3,4) two_items_roles(2) own_parses(3) two_items_fetch
  show ?thesis by (intro conjI)
qed

text \<open>
  C2. \<open>fetch_education_data\<close> at a fragment with two education entries.
  \<open>_get_section_elements\<close> returns the \<open>html\<close> element; \<open>_fetch_arbitrary_data\<close> finds that
  it is not a list and parses it as a single entry. The result has one record, read from the
  first summary block of the fragment, and the loop of lines 290-292 is never reached.
\<close>

theorem fetch_education_data_two_entries:
  "length (select (py ''.pv-entity__summary-info'') two_educations_soup) = 2 \<and>
   fetch_education_data True two_educations_soup =
     Inr [[(''school'', py ''MIT''),
           (''field_of_study'', []),
           (''degree'', []),
           (''start_date'', py ''2010''),
           (''end_date'', py ''2014'')]]"
proof -
  have n: "length (select (py ''.pv-entity__summary-info'') two_educations_soup) = 2"
    by (simp add: two_educations_soup_def two_educations_html_def education_entry_def
        select_def py_def)
  have h: "item (get_section_elements (py ''.education-section'') two_educations_soup) 0 =
             Inr two_educations_html"
    by (simp add: get_section_elements_def two_educations_soup_def two_educations_html_def
        education_entry_def select_def item_def py_def)
  have p: "parse_education two_educations_html =
     Inr [(''school'', py ''MIT''), (''field_of_study'', []), (''degree'', []),
          (''start_date'', py ''2010''), (''end_date'', py ''2014'')]"
    by (simp add: education_defs two_educations_html_def education_entry_def
        select_def item_def and_then_def py_def)
  from n h p show ?thesis
    by (simp add: fetch_education_data_def fetch_arbitrary_data_def validate_authentication_def
        isinstance_list_def and_then_def)
qed

text \<open>
  C3, amended. In the flat variant the company is the text of the secondary title split on
  whitespace, with every token that contains \<open>time\<close> removed and the remaining tokens
  concatenated with no separator. For the fragment of the scenario the extractor returns
  exactly one record, with position \<open>Engineer\<close>, start date \<open>Jan 2020\<close>, end date
  \<open>Mar 2021\<close>, and as company a middle dot followed by \<open>Acme\<close>: the middle dot is a token
  of its own, it does not contain \<open>time\<close>, and it stays.
\<close>

theorem flat_company_name:
  "(\<forall>row r. parse_experience row None = Inr r \<longrightarrow>
      (\<exists>t. item (select (py ''.pv-entity__secondary-title'') row) 0 = Inr t \<and>
         map_of r ''company'' =
           Some (concat (filter (\<lambda>token. \<not> contains (py ''time'') token) (split (get_text t)))))) \<and>
   fetch_experience_data True scenario_soup =
     Inr [[(''company'', MIDDLE_DOT # py ''Acme''),
           (''start_date'', py ''Jan 2020''),
           (''end_date'', py ''Mar 2021''),
           (''position'', py ''Engineer''),
           (''location'', []),
           (''description'', [])]]"
proof (intro conjI allI impI)
  fix row r assume "parse_experience row None = Inr r"
  from parse_experience_Inr [OF this]
  obtain position company where
    pc: "experience_position_company row None = Inr (position, company)"
    and r: "map_of r ''company'' = Some company" by auto
  from pc obtain h t where
    "item (select (py ''.pv-entity__secondary-title'') row) 0 = Inr t"
    "company = join [] (filter (\<lambda>string. \<not> contains (py ''time'') string) (split (get_text t)))"
    by (auto simp: experience_position_company_def position_company_flat_def and_then_Inr)
  with r show "\<exists>t. item (select (py ''.pv-entity__secondary-title'') row) 0 = Inr t \<and>
         map_of r ''company'' =
           Some (concat (filter (\<lambda>token. \<not> contains (py ''time'') token) (split (get_text t))))"
    by (simp add: join_empty_sep)
next
  show "fetch_experience_data True scenario_soup =
     Inr [[(''company'', MIDDLE_DOT # py ''Acme''),
           (''start_date'', py ''Jan 2020''),
           (''end_date'', py ''Mar 2021''),
           (''position'', py ''Engineer''),
           (''location'', []),
           (''description'', [])]]"
    using scenario_fetch by (simp add: scenario_record_def)
qed

theorem flat_company_name_witness:
  "parse_experience scenario_body None = Inr scenario_record \<and>
   map_of scenario_record ''company'' = Some (MIDDLE_DOT # py ''Acme'') \<and>
   (\<exists>t. item (select (py ''.pv-entity__secondary-title'') scenario_body) 0 = Inr t \<and>
      map_of scenario_record ''company'' =
        Some (concat (filter (\<lambda>token. \<not> contains (py ''time'') token) (split (get_text t)))))"
proof -
  from flat_company_name scenario_parse have
    "\<exists>t. item (select (py ''.pv-entity__secondary-title'') scenario_body) 0 = Inr t \<and>
       map_of scenario_record ''company'' =
         Some (concat (filter (\<lambda>token. \<not> contains (py ''time'') token) (split (get_text t))))"
    by blast
  moreover have "map_of scenario_record ''company'' = Some (MIDDLE_DOT # py ''Acme'')"
    by (simp add: scenario_record_def)
  ultimately show ?thesis using scenario_parse by blast
qed

text \<open>C3 as stated fails: the company of the scenario's record is not \<open>Acme\<close>.\<close>

theorem scenario_company_counterexample:
  "fetch_experience_data True scenario_soup = Inr [scenario_record] \<and>
   map_of scenario_record ''company'' = Some (MIDDLE_DOT # py ''Acme'') \<and>
   map_of scenario_record ''company'' \<noteq> Some (py ''Acme'')"
  using scenario_fetch by (simp add: scenario_record_def py_def MIDDLE_DOT_def)

text \<open>
  C4. An education entry with no date block (\<open>.pv-entity__dates\<close>) makes
  \<open>parse_education\<close> fail and yields no record. The exception raised is Python's
  \<open>IndexError\<close>, the source's form of the error that the specification calls
  \<open>MalformedEntry\<close>.
\<close>

theorem parse_education_missing_dates:
  assumes "select (py ''.pv-entity__dates'') row_content = []"
  shows "parse_education row_content = Inl IndexError"
  unfolding parse_education_def
proof (rule and_then_IndexError)
  fix e assume "item (select (py ''.pv-entity__summary-info'') row_content) 0 = Inl e"
  then show "e = IndexError" by (rule item_error)
next
  fix current_item
  assume "item (select (py ''.pv-entity__summary-info'') row_content) 0 = Inr current_item"
  then have "current_item \<in> set (select (py ''.pv-entity__summary-info'') row_content)"
    by (rule item_mem)
  from select_within_empty [OF this assms]
  have "select (py ''.pv-entity__dates'') current_item = []" .
  then have "education_dates current_item = Inl IndexError"
    by (simp add: education_dates_def item_Nil and_then_def)
  then show "and_then (education_degree current_item)
         (\<lambda>degree. and_then (education_field_of_study current_item)
           (\<lambda>field_of_study. and_then (education_school current_item)
             (\<lambda>school. and_then (education_dates current_item)
               (\<lambda>(start_date, end_date). Inr
                  [(''school'', school),
                   (''field_of_study'', field_of_study),
                   (''degree'', degree),
                   (''start_date'', start_date),
                   (''end_date'', end_date)])))) = Inl IndexError"
    by (auto simp: and_then_def split: sum.splits dest: education_errors)
qed

theorem parse_education_missing_dates_witness:
  "select (py ''.pv-entity__dates'') education_without_dates = [] \<and>
   parse_education education_without_dates = Inl IndexError"
proof -
  have h: "select (py ''.pv-entity__dates'') education_without_dates = []"
    by (simp add: education_without_dates_def select_def py_def)
  from parse_education_missing_dates [OF h] h show ?thesis by simp
qed

text \<open>
  C5. \<open>parse_certification\<close> at an entry whose summary block holds a single \<open>span\<close>, and at
  an entry whose summary block has four contents and two spans. Line 167 reads the second span
  with no guard, and line 168 guards the read of the fourth span by the number of contents:
  both entries raise \<open>IndexError\<close> where an empty string is expected.
\<close>

theorem parse_certification_missing_spans:
  "select (py ''span'') (Tag (py ''div'') [py ''pv-certifications__summary-info'']
      [Element (Tag (py ''h3'') [] [NavigableString (py ''Cloud Architect'')]),
       Element (Tag (py ''span'') [] [NavigableString (py ''Acme Academy'')])]) =
     [Tag (py ''span'') [] [NavigableString (py ''Acme Academy'')]] \<and>
   parse_certification one_span_certification = Inl IndexError \<and>
   parse_certification four_block_certification = Inl IndexError"
  by (simp add: parse_certification_def certification_span_def len_def
      one_span_certification_def four_block_certification_def
      select_def item_def and_then_def py_def)










text \<open>
  C9. About-text normalization is idempotent: a fragment whose text is the result of
  \<open>parse_about\<close> (newlines replaced by spaces, whitespace runs collapsed to single spaces,
  the result trimmed) is normalized to that same text.
\<close>

theorem parse_about_idempotent:
  "get_text t' = parse_about t \<Longrightarrow> parse_about t' = parse_about t"
  using normalize_join [OF split_words]
  by (simp add: parse_about_def)

theorem parse_about_idempotent_witness:
  "get_text about_normalized = parse_about about_raw \<and>
   parse_about about_normalized = parse_about about_raw \<and>
   parse_about about_raw = py ''Builds compilers. Likes proofs''"
proof -
  have r: "parse_about about_raw = py ''Builds compilers. Likes proofs''"
    by (simp add: about_raw_def parse_about_def split_def py_def isspace_def NEWLINE_def)
  have h: "get_text about_normalized = parse_about about_raw"
    unfolding r by (simp add: about_normalized_def)
  from parse_about_idempotent [OF h] h r show ?thesis by simp
qed

text \<open>
  C10. \<open>fetch_experience_data\<close> at the experience section with two entries. In the
  document the flat entry comes first and the entry with the two roles second. The loop of
  line 315 runs over the \<open>body\<close> and not over the entries, so that the grouped path collects
  the roles of the whole section before the flat path reads its first entry: the result
  has the two records of the later entry before the record of the earlier one.
\<close>

theorem fetch_experience_data_later_item_first:
  "select (py ''li'') two_items_soup = [flat_item, both_markers_item] \<and>
   parse_experience flat_item None =
     Inr (role_record (py ''Acme'') (py ''2015'') (py ''2016'') (py ''Intern'')) \<and>
   parse_experience manager_role (Some both_markers_item) =
     Inr (role_record (py ''Initech'') (py ''2019'') (py ''2021'') (py ''Manager'')) \<and>
   parse_experience developer_role (Some both_markers_item) =
     Inr (role_record (py ''Initech'') (py ''2017'') (py ''2019'') (py ''Developer'')) \<and>
   fetch_experience_data True two_items_soup =
     Inr ([role_record (py ''Initech'') (py ''2019'') (py ''2021'') (py ''Manager''),
           role_record (py ''Initech'') (py ''2017'') (py ''2019'') (py ''Developer'')] @
          [role_record (py ''Acme'') (py ''2015'') (py ''2016'') (py ''Intern'')])"
  using two_items_roles(3) own_parses(4,1,2) two_items_fetch by simp

end
